theory Spec2Isabelle
  imports Main "HOL-Library.Word"
begin

section \<open>Host strings\<close>

text \<open>
  A \<^verbatim>\<open>std::string\<close> is a sequence of bytes. Wherever QuickJSWrapper.h hands a string to
  the interpreter's C interface or to \<^verbatim>\<open>fopen\<close> it passes \<^verbatim>\<open>s.c_str()\<close>, and the callee
  reads the bytes before the first NUL byte. For text without a NUL byte \<open>c_str s = s\<close>.
  So a host name designates the global whose key is the name's C string, in every
  function of the wrapper alike, and a path the file at its C string.
\<close>

definition c_str :: "string \<Rightarrow> string" where
  "c_str s = takeWhile (\<lambda>c. c \<noteq> CHR 0x00) s"

section \<open>Script values\<close>

text \<open>
  The three captureless lambdas of QuickJSWrapper.h that are converted to C function
  pointers and given to \<^verbatim>\<open>JS_NewCFunction\<close>: the \<^verbatim>\<open>wrapper\<close> of
  \<^verbatim>\<open>registerFunction\<close> (line 346), of \<^verbatim>\<open>registerSimpleFunction\<close> (line 394) and of
  \<^verbatim>\<open>setConsoleLog\<close> (line 426).
\<close>

datatype JSCFunction =
    Wrapper_registerFunction
  | Wrapper_registerSimpleFunction
  | Wrapper_setConsoleLog

datatype error_class = InternalError | TypeError | ReferenceError | SyntaxError

text \<open>
  Modelled from the spec: the interpreter's value representation is not part of the
  wrapper's sources. The constructors are the kinds of value the wrapper makes or tests:
  the special values of quickjs.h, the four host scalars of the value marshaler, the
  global object, a native function object (function pointer, name, declared length), an
  error object (class and message), a symbol, and a handle for any other object of the
  interpreter's heap. A 32-bit integer is a \<open>32 word\<close>; a double is kept as its 64-bit
  pattern, because the wrapper only passes doubles through.
\<close>

datatype JSValue =
    JS_UNDEFINED
  | JS_NULL
  | JS_EXCEPTION
  | JS_UNINITIALIZED
  | JS_Bool bool
  | JS_Int32 "32 word"
  | JS_Float64 "64 word"
  | JS_String string
  | JS_Symbol string
  | JS_GlobalObject
  | JS_CFunctionObj JSCFunction string nat
  | JS_Error error_class string
  | JS_Object nat

section \<open>Host closures and the objects behind the opaque pointer\<close>

text \<open>
  What a C++ function can throw: an exception derived from \<^verbatim>\<open>std::exception\<close>, with its
  \<^verbatim>\<open>what()\<close> message, or a value of any other type (\<^verbatim>\<open>throw 42;\<close>), which a
  \<^verbatim>\<open>catch (const std::exception&)\<close> clause does not catch.
\<close>

datatype thrown = Std_exception string | Other_exception

text \<open>
  A host closure is a \<^verbatim>\<open>std::function\<close> and acts on the host's own state \<open>'h\<close>. It
  either returns (\<open>Inr\<close>) or throws (\<open>Inl\<close>).
\<close>

type_synonym 'h JSCFunctionString = "string list \<Rightarrow> 'h \<Rightarrow> (thrown + string) \<times> 'h"
type_synonym 'h JSCFunctionSimple = "'h \<Rightarrow> (thrown + string) \<times> 'h"
type_synonym 'h ConsoleLogCallback = "string \<Rightarrow> 'h \<Rightarrow> (thrown + unit) \<times> 'h"

text \<open>
  The heap objects the three registration functions allocate with \<^verbatim>\<open>new\<close>. The context's
  opaque pointer is a \<^verbatim>\<open>void*\<close>: it may point to any of them, and a trampoline
  \<^verbatim>\<open>static_cast\<close>s it to the type it expects. The objects are never freed or changed, so
  a pointer is modelled by the object it points to. The \<^verbatim>\<open>ctx\<close> field of
  \<^verbatim>\<open>FuncWrapper\<close> is never read and is left out.
\<close>

datatype 'h opaque_object =
    FunctionString "'h JSCFunctionString"
  | FuncWrapper "'h JSCFunctionSimple"
  | CallbackWrapper "'h ConsoleLogCallback"

section \<open>The state: interpreter context, host state, files\<close>

text \<open>
  Modelled from the spec: a Context holds global bindings and exactly one opaque extension
  slot; the interpreter keeps a pending exception (\<open>JS_UNINITIALIZED\<close> when there is
  none) and further state of its own (\<open>interp\<close>). \<open>host\<close> is the state the host closures
  act on and \<open>files\<close> the file system \<^verbatim>\<open>fopen\<close> reads.

  What the file system has at a path that \<^verbatim>\<open>fopen(path, "rb")\<close> opens: the bytes
  \<^verbatim>\<open>fread\<close> can deliver from the start, and the \<^verbatim>\<open>long\<close> (64 bits) that
  \<^verbatim>\<open>ftell\<close> returns after \<^verbatim>\<open>fseek(file, 0, SEEK_END)\<close>. For a regular file that is the
  number of its bytes; for a directory or a pipe, which \<^verbatim>\<open>fopen\<close> opens as well, it is
  whatever the system reports (the largest \<^verbatim>\<open>long\<close> for a directory on Linux, \<open>-1\<close>
  where the seek fails).
\<close>

record file_node =
  bytes :: string
  end_position :: "64 word"

definition regular_file :: "string \<Rightarrow> file_node" where
  "regular_file contents = \<lparr>bytes = contents, end_position = of_nat (length contents)\<rparr>"

definition directory :: file_node where
  "directory = \<lparr>bytes = [], end_position = 0x7FFFFFFFFFFFFFFF\<rparr>"

record ('i, 'h) world =
  globals :: "string \<rightharpoonup> JSValue"
  context_opaque :: "'h opaque_object option"
  current_exception :: JSValue
  interp :: 'i
  host :: 'h
  files :: "string \<rightharpoonup> file_node"

text \<open>
  What can go wrong below the level of script values and \<open>JSException\<close>: the opaque
  pointer is cast to a type its pointee does not have and then used, or memory outside a
  buffer is written (both undefined behaviour), or a C++ exception that is no
  \<open>JSException\<close> leaves a function of the wrapper: out of a trampoline into the
  interpreter that called it, or out of \<^verbatim>\<open>evalFile\<close> to its caller.
\<close>

datatype fault = Type_Confusion | Out_Of_Bounds | Foreign_Exception thrown

datatype JSException = JSException string

section \<open>The interpreter, as a parameter\<close>

text \<open>
  The parser, evaluator and coercions of the interpreter are not part of the wrapper; they
  are taken as a parameter. \<open>JS_Eval\<close> gets the source bytes and the file name as a C
  string and gives the completion value (\<open>JS_EXCEPTION\<close> with the pending exception set
  on failure); running script code may reach a native function and fault there.
  \<open>JS_ToCString\<close> gives the C string of a value, or \<open>None\<close> for the null pointer.
  \<open>JS_ToInt32\<close> and \<open>JS_ToFloat64\<close> give what they store through their result pointer,
  \<open>None\<close> if they store nothing (their return code is ignored by the wrapper).
  \<open>JS_ToBool\<close> gives the returned \<^verbatim>\<open>int\<close>. The last four fields are the interpreter on
  values other than the global object and native function objects.
\<close>

record ('i, 'h) engine =
  JS_Eval :: "('i, 'h) world \<Rightarrow> string \<Rightarrow> string \<Rightarrow> fault + (JSValue \<times> ('i, 'h) world)"
  JS_ToCString :: "('i, 'h) world \<Rightarrow> JSValue \<Rightarrow> string option \<times> ('i, 'h) world"
  JS_ToInt32 :: "('i, 'h) world \<Rightarrow> JSValue \<Rightarrow> 32 word option \<times> ('i, 'h) world"
  JS_ToFloat64 :: "('i, 'h) world \<Rightarrow> JSValue \<Rightarrow> 64 word option \<times> ('i, 'h) world"
  JS_ToBool :: "('i, 'h) world \<Rightarrow> JSValue \<Rightarrow> int"
  object_is_function :: "('i, 'h) world \<Rightarrow> JSValue \<Rightarrow> bool"
  object_call :: "('i, 'h) world \<Rightarrow> JSValue \<Rightarrow> JSValue \<Rightarrow> JSValue list \<Rightarrow>
    fault + (JSValue \<times> ('i, 'h) world)"
  object_get :: "('i, 'h) world \<Rightarrow> JSValue \<Rightarrow> string \<Rightarrow> JSValue"
  object_set :: "('i, 'h) world \<Rightarrow> JSValue \<Rightarrow> string \<Rightarrow> JSValue \<Rightarrow> ('i, 'h) world"

section \<open>The interpreter operations the wrapper relies on\<close>

text \<open>
  Modelled from the spec: the tests and constructors of script values that quickjs.h
  declares. The exception marker is one value; a host scalar becomes the script value
  of its kind; \<^verbatim>\<open>JS_NewString\<close> gets a C string; a native function object keeps the
  function pointer, the name and the declared length it was made with.
\<close>

definition JS_IsException :: "JSValue \<Rightarrow> bool" where
  "JS_IsException v = (v = JS_EXCEPTION)"

text \<open>Modelled from the spec: taking the pending exception leaves none pending.\<close>

definition JS_GetException :: "('i, 'h) world \<Rightarrow> JSValue \<times> ('i, 'h) world" where
  "JS_GetException ctx = (current_exception ctx, ctx\<lparr>current_exception := JS_UNINITIALIZED\<rparr>)"

definition JS_GetGlobalObject :: "('i, 'h) world \<Rightarrow> JSValue" where
  "JS_GetGlobalObject ctx = JS_GlobalObject"

definition JS_NewString :: "string \<Rightarrow> JSValue" where
  "JS_NewString str = JS_String str"

definition JS_NewInt32 :: "32 word \<Rightarrow> JSValue" where
  "JS_NewInt32 v = JS_Int32 v"

definition JS_NewFloat64 :: "64 word \<Rightarrow> JSValue" where
  "JS_NewFloat64 d = JS_Float64 d"

definition JS_NewBool :: "bool \<Rightarrow> JSValue" where
  "JS_NewBool b = JS_Bool b"

definition JS_NewCFunction :: "JSCFunction \<Rightarrow> string \<Rightarrow> nat \<Rightarrow> JSValue" where
  "JS_NewCFunction func name len = JS_CFunctionObj func name len"

text \<open>
  Modelled from the spec: a global binding is a property of the global object; reading an
  unbound name gives \<open>undefined\<close>, and setting a name installs the value, overwriting any
  prior binding with no error.
\<close>

definition JS_GetPropertyStr ::
  "('i, 'h) engine \<Rightarrow> ('i, 'h) world \<Rightarrow> JSValue \<Rightarrow> string \<Rightarrow> JSValue" where
  "JS_GetPropertyStr E ctx this_obj prop =
     (if this_obj = JS_GlobalObject
      then (case globals ctx prop of None \<Rightarrow> JS_UNDEFINED | Some v \<Rightarrow> v)
      else object_get E ctx this_obj prop)"

definition JS_SetPropertyStr ::
  "('i, 'h) engine \<Rightarrow> ('i, 'h) world \<Rightarrow> JSValue \<Rightarrow> string \<Rightarrow> JSValue \<Rightarrow> ('i, 'h) world" where
  "JS_SetPropertyStr E ctx this_obj prop val =
     (if this_obj = JS_GlobalObject
      then ctx\<lparr>globals := (globals ctx)(prop \<mapsto> val)\<rparr>
      else object_set E ctx this_obj prop val)"

text \<open>Modelled from the spec: the one opaque extension slot of a Context, written and read.\<close>

definition JS_SetContextOpaque ::
  "('i, 'h) world \<Rightarrow> 'h opaque_object option \<Rightarrow> ('i, 'h) world" where
  "JS_SetContextOpaque ctx opaque = ctx\<lparr>context_opaque := opaque\<rparr>"

definition JS_GetContextOpaque :: "('i, 'h) world \<Rightarrow> 'h opaque_object option" where
  "JS_GetContextOpaque ctx = context_opaque ctx"

text \<open>
  Modelled from the spec: the fault is re-raised as a script-level exception carrying the
  fault's message. \<^verbatim>\<open>JS_ThrowInternalError(ctx, "%s", msg)\<close> makes an InternalError
  with that message the pending exception and returns \<open>JS_EXCEPTION\<close>.
\<close>

definition JS_ThrowInternalError :: "('i, 'h) world \<Rightarrow> string \<Rightarrow> JSValue \<times> ('i, 'h) world" where
  "JS_ThrowInternalError ctx msg =
     (JS_EXCEPTION, ctx\<lparr>current_exception := JS_Error InternalError msg\<rparr>)"

text \<open>
  Modelled from the spec: a binding is invocable when it is a native function object, or an
  object the interpreter says is a function.
\<close>

definition JS_IsFunction :: "('i, 'h) engine \<Rightarrow> ('i, 'h) world \<Rightarrow> JSValue \<Rightarrow> bool" where
  "JS_IsFunction E ctx v =
     (case v of
        JS_CFunctionObj f name len \<Rightarrow> True
      | JS_Object r \<Rightarrow> object_is_function E ctx v
      | _ \<Rightarrow> False)"

section \<open>Context: evaluation (QuickJSWrapper.h, lines 126-217)\<close>

definition eval ::
  "('i, 'h) engine \<Rightarrow> ('i, 'h) world \<Rightarrow> string \<Rightarrow> string \<Rightarrow>
   fault + ((JSException + string) \<times> ('i, 'h) world)" where
  "eval E ctx code filename =
     (case JS_Eval E ctx code (c_str filename) of
        Inl f \<Rightarrow> Inl f
      | Inr (val, ctx1) \<Rightarrow>
          if JS_IsException val then
            (let (exception, ctx2) = JS_GetException ctx1;
                 (str, ctx3) = JS_ToCString E ctx2 exception;
                 error_msg = (case str of Some s \<Rightarrow> s | None \<Rightarrow> ''Unknown error'')
             in Inr (Inl (JSException error_msg), ctx3))
          else
            (let (str, ctx2) = JS_ToCString E ctx1 val;
                 result = (case str of Some s \<Rightarrow> s | None \<Rightarrow> [])
             in Inr (Inr result, ctx2)))"

definition evalAsInt ::
  "('i, 'h) engine \<Rightarrow> ('i, 'h) world \<Rightarrow> string \<Rightarrow> string \<Rightarrow>
   fault + ((JSException + 32 word) \<times> ('i, 'h) world)" where
  "evalAsInt E ctx code filename =
     (case JS_Eval E ctx code (c_str filename) of
        Inl f \<Rightarrow> Inl f
      | Inr (val, ctx1) \<Rightarrow>
          if JS_IsException val then
            (let (exception, ctx2) = JS_GetException ctx1;
                 (str, ctx3) = JS_ToCString E ctx2 exception;
                 error_msg = (case str of Some s \<Rightarrow> s | None \<Rightarrow> ''Unknown error'')
             in Inr (Inl (JSException error_msg), ctx3))
          else
            (let (stored, ctx2) = JS_ToInt32 E ctx1 val;
                 result = (case stored of Some r \<Rightarrow> r | None \<Rightarrow> 0)
             in Inr (Inr result, ctx2)))"

definition evalAsDouble ::
  "('i, 'h) engine \<Rightarrow> ('i, 'h) world \<Rightarrow> string \<Rightarrow> string \<Rightarrow>
   fault + ((JSException + 64 word) \<times> ('i, 'h) world)" where
  "evalAsDouble E ctx code filename =
     (case JS_Eval E ctx code (c_str filename) of
        Inl f \<Rightarrow> Inl f
      | Inr (val, ctx1) \<Rightarrow>
          if JS_IsException val then
            (let (exception, ctx2) = JS_GetException ctx1;
                 (str, ctx3) = JS_ToCString E ctx2 exception;
                 error_msg = (case str of Some s \<Rightarrow> s | None \<Rightarrow> ''Unknown error'')
             in Inr (Inl (JSException error_msg), ctx3))
          else
            (let (stored, ctx2) = JS_ToFloat64 E ctx1 val;
                 result = (case stored of Some r \<Rightarrow> r | None \<Rightarrow> 0)
             in Inr (Inr result, ctx2)))"

definition evalAsBool ::
  "('i, 'h) engine \<Rightarrow> ('i, 'h) world \<Rightarrow> string \<Rightarrow> string \<Rightarrow>
   fault + ((JSException + bool) \<times> ('i, 'h) world)" where
  "evalAsBool E ctx code filename =
     (case JS_Eval E ctx code (c_str filename) of
        Inl f \<Rightarrow> Inl f
      | Inr (val, ctx1) \<Rightarrow>
          if JS_IsException val then
            (let (exception, ctx2) = JS_GetException ctx1;
                 (str, ctx3) = JS_ToCString E ctx2 exception;
                 error_msg = (case str of Some s \<Rightarrow> s | None \<Rightarrow> ''Unknown error'')
             in Inr (Inl (JSException error_msg), ctx3))
          else
            (let result = (JS_ToBool E ctx1 val \<noteq> 0)
             in Inr (Inr result, ctx1)))"

section \<open>Context: global bindings (lines 222-264)\<close>

text \<open>
  The four overloads of \<^verbatim>\<open>setGlobal\<close>, one function each. Which overload a call selects
  is C++ overload resolution and not part of the model: an argument of type
  \<^verbatim>\<open>std::string\<close> selects the first, while a string literal, being a pointer, converts
  to \<^verbatim>\<open>bool\<close> by a standard conversion and selects the last.
\<close>

definition setGlobal_string ::
  "('i, 'h) engine \<Rightarrow> ('i, 'h) world \<Rightarrow> string \<Rightarrow> string \<Rightarrow> ('i, 'h) world" where
  "setGlobal_string E ctx name v =
     (let global = JS_GetGlobalObject ctx;
          str_val = JS_NewString (c_str v)
      in JS_SetPropertyStr E ctx global (c_str name) str_val)"

definition setGlobal_int ::
  "('i, 'h) engine \<Rightarrow> ('i, 'h) world \<Rightarrow> string \<Rightarrow> 32 word \<Rightarrow> ('i, 'h) world" where
  "setGlobal_int E ctx name v =
     (let global = JS_GetGlobalObject ctx;
          int_val = JS_NewInt32 v
      in JS_SetPropertyStr E ctx global (c_str name) int_val)"

definition setGlobal_double ::
  "('i, 'h) engine \<Rightarrow> ('i, 'h) world \<Rightarrow> string \<Rightarrow> 64 word \<Rightarrow> ('i, 'h) world" where
  "setGlobal_double E ctx name v =
     (let global = JS_GetGlobalObject ctx;
          double_val = JS_NewFloat64 v
      in JS_SetPropertyStr E ctx global (c_str name) double_val)"

definition setGlobal_bool ::
  "('i, 'h) engine \<Rightarrow> ('i, 'h) world \<Rightarrow> string \<Rightarrow> bool \<Rightarrow> ('i, 'h) world" where
  "setGlobal_bool E ctx name v =
     (let global = JS_GetGlobalObject ctx;
          bool_val = JS_NewBool v
      in JS_SetPropertyStr E ctx global (c_str name) bool_val)"

definition getGlobalAsString ::
  "('i, 'h) engine \<Rightarrow> ('i, 'h) world \<Rightarrow> string \<Rightarrow> string \<times> ('i, 'h) world" where
  "getGlobalAsString E ctx name =
     (let global = JS_GetGlobalObject ctx;
          val = JS_GetPropertyStr E ctx global (c_str name);
          (str, ctx1) = JS_ToCString E ctx val;
          result = (case str of Some s \<Rightarrow> s | None \<Rightarrow> [])
      in (result, ctx1))"

section \<open>FunctionBridge: the trampolines (lines 346-370, 394-406, 426-436)\<close>

text \<open>
  In the two registration trampolines the closure runs inside \<^verbatim>\<open>try\<close>, and the one
  handler is \<^verbatim>\<open>catch (const std::exception& e)\<close>: such an exception becomes
  \<^verbatim>\<open>JS_ThrowInternalError(ctx, "%s", e.what())\<close>, anything else that is thrown leaves the
  trampoline. The logging trampoline has no handler.

  The argument loop of the \<^verbatim>\<open>registerFunction\<close> trampoline: each \<^verbatim>\<open>argv[i]\<close> is
  converted in turn, and appended to \<^verbatim>\<open>args\<close> only \<^verbatim>\<open>if (str)\<close>.
\<close>

fun convert_arguments ::
  "('i, 'h) engine \<Rightarrow> ('i, 'h) world \<Rightarrow> JSValue list \<Rightarrow> string list \<Rightarrow>
   string list \<times> ('i, 'h) world" where
  "convert_arguments E ctx [] args = (args, ctx)"
| "convert_arguments E ctx (v # argv) args =
     (case JS_ToCString E ctx v of
        (Some str, ctx1) \<Rightarrow> convert_arguments E ctx1 argv (args @ [str])
      | (None, ctx1) \<Rightarrow> convert_arguments E ctx1 argv args)"

definition registerFunction_wrapper ::
  "('i, 'h) engine \<Rightarrow> ('i, 'h) world \<Rightarrow> JSValue \<Rightarrow> JSValue list \<Rightarrow>
   fault + (JSValue \<times> ('i, 'h) world)" where
  "registerFunction_wrapper E ctx this_val argv =
     (case JS_GetContextOpaque ctx of
        None \<Rightarrow> Inr (JS_EXCEPTION, ctx)
      | Some func \<Rightarrow>
          (let (args, ctx1) = convert_arguments E ctx argv [] in
           case func of
             FunctionString f \<Rightarrow>
               (case f args (host ctx1) of
                  (Inr result, h) \<Rightarrow> Inr (JS_NewString (c_str result), ctx1\<lparr>host := h\<rparr>)
                | (Inl (Std_exception what), h) \<Rightarrow>
                    Inr (JS_ThrowInternalError (ctx1\<lparr>host := h\<rparr>) what)
                | (Inl Other_exception, h) \<Rightarrow> Inl (Foreign_Exception Other_exception))
           | _ \<Rightarrow> Inl Type_Confusion))"

definition registerSimpleFunction_wrapper ::
  "('i, 'h) engine \<Rightarrow> ('i, 'h) world \<Rightarrow> JSValue \<Rightarrow> JSValue list \<Rightarrow>
   fault + (JSValue \<times> ('i, 'h) world)" where
  "registerSimpleFunction_wrapper E ctx this_val argv =
     (case JS_GetContextOpaque ctx of
        None \<Rightarrow> Inr (JS_EXCEPTION, ctx)
      | Some data \<Rightarrow>
          (case data of
             FuncWrapper f \<Rightarrow>
               (case f (host ctx) of
                  (Inr result, h) \<Rightarrow> Inr (JS_NewString (c_str result), ctx\<lparr>host := h\<rparr>)
                | (Inl (Std_exception what), h) \<Rightarrow>
                    Inr (JS_ThrowInternalError (ctx\<lparr>host := h\<rparr>) what)
                | (Inl Other_exception, h) \<Rightarrow> Inl (Foreign_Exception Other_exception))
           | _ \<Rightarrow> Inl Type_Confusion))"

definition setConsoleLog_wrapper ::
  "('i, 'h) engine \<Rightarrow> ('i, 'h) world \<Rightarrow> JSValue \<Rightarrow> JSValue list \<Rightarrow>
   fault + (JSValue \<times> ('i, 'h) world)" where
  "setConsoleLog_wrapper E ctx this_val argv =
     (case (JS_GetContextOpaque ctx, argv) of
        (Some data, v # rest) \<Rightarrow>
          (case JS_ToCString E ctx v of
             (Some str, ctx1) \<Rightarrow>
               (case data of
                  CallbackWrapper callback \<Rightarrow>
                    (case callback str (host ctx1) of
                       (Inr u, h) \<Rightarrow> Inr (JS_UNDEFINED, ctx1\<lparr>host := h\<rparr>)
                     | (Inl t, h) \<Rightarrow> Inl (Foreign_Exception t))
                | _ \<Rightarrow> Inl Type_Confusion)
           | (None, ctx1) \<Rightarrow> Inr (JS_UNDEFINED, ctx1))
      | _ \<Rightarrow> Inr (JS_UNDEFINED, ctx))"

text \<open>The function pointer stored in a native function object, called.\<close>

fun c_function ::
  "JSCFunction \<Rightarrow> ('i, 'h) engine \<Rightarrow> ('i, 'h) world \<Rightarrow> JSValue \<Rightarrow> JSValue list \<Rightarrow>
   fault + (JSValue \<times> ('i, 'h) world)" where
  "c_function Wrapper_registerFunction = registerFunction_wrapper"
| "c_function Wrapper_registerSimpleFunction = registerSimpleFunction_wrapper"
| "c_function Wrapper_setConsoleLog = setConsoleLog_wrapper"

text \<open>
  Modelled from the spec: a registration installs a trampoline in the global namespace, and
  when that global is called control re-enters the host through the trampoline. Calling a
  native function object calls its function pointer with the context, the receiver and
  the arguments; calling anything else is the interpreter's own business.
\<close>

definition JS_Call ::
  "('i, 'h) engine \<Rightarrow> ('i, 'h) world \<Rightarrow> JSValue \<Rightarrow> JSValue \<Rightarrow> JSValue list \<Rightarrow>
   fault + (JSValue \<times> ('i, 'h) world)" where
  "JS_Call E ctx func_obj this_obj argv =
     (case func_obj of
        JS_CFunctionObj f name len \<Rightarrow> c_function f E ctx this_obj argv
      | _ \<Rightarrow> object_call E ctx func_obj this_obj argv)"

text \<open>
  Modelled from the spec: script code invoking the global \<open>name\<close> with the arguments
  \<open>argv\<close>. The name is resolved in the global object and the value found is called,
  with \<open>undefined\<close> as receiver.
\<close>

definition script_call ::
  "('i, 'h) engine \<Rightarrow> ('i, 'h) world \<Rightarrow> string \<Rightarrow> JSValue list \<Rightarrow>
   fault + (JSValue \<times> ('i, 'h) world)" where
  "script_call E ctx name argv =
     JS_Call E ctx (JS_GetPropertyStr E ctx JS_GlobalObject name) JS_UNDEFINED argv"

section \<open>Context: calling a script function, loading a file (lines 269-335)\<close>

definition callFunction ::
  "('i, 'h) engine \<Rightarrow> ('i, 'h) world \<Rightarrow> string \<Rightarrow> string list \<Rightarrow>
   fault + ((JSException + string) \<times> ('i, 'h) world)" where
  "callFunction E ctx funcName args =
     (let global = JS_GetGlobalObject ctx;
          func = JS_GetPropertyStr E ctx global (c_str funcName)
      in
        if \<not> JS_IsFunction E ctx func then
          Inr (Inl (JSException (''Not a function: '' @ funcName)), ctx)
        else
          (let js_args = map (\<lambda>arg. JS_NewString (c_str arg)) args in
           case JS_Call E ctx func global js_args of
             Inl f \<Rightarrow> Inl f
           | Inr (result, ctx1) \<Rightarrow>
               if JS_IsException result then
                 (let (exception, ctx2) = JS_GetException ctx1;
                      (str, ctx3) = JS_ToCString E ctx2 exception;
                      error_msg = (case str of Some s \<Rightarrow> s | None \<Rightarrow> ''Unknown error'')
                  in Inr (Inl (JSException error_msg), ctx3))
               else
                 (let (str, ctx2) = JS_ToCString E ctx1 result;
                      ret = (case str of Some s \<Rightarrow> s | None \<Rightarrow> [])
                  in Inr (Inr ret, ctx2))))"







section \<open>FunctionBridge: registration (lines 342-452)\<close>

definition registerFunction ::
  "('i, 'h) engine \<Rightarrow> ('i, 'h) world \<Rightarrow> string \<Rightarrow> 'h JSCFunctionString \<Rightarrow> ('i, 'h) world" where
  "registerFunction E ctx name func =
     (let func_ptr = FunctionString func;
          global = JS_GetGlobalObject ctx;
          func_obj = JS_NewCFunction Wrapper_registerFunction (c_str name) 0;
          ctx1 = JS_SetPropertyStr E ctx global (c_str name) func_obj
      in JS_SetContextOpaque ctx1 (Some func_ptr))"

definition registerSimpleFunction ::
  "('i, 'h) engine \<Rightarrow> ('i, 'h) world \<Rightarrow> string \<Rightarrow> 'h JSCFunctionSimple \<Rightarrow> ('i, 'h) world" where
  "registerSimpleFunction E ctx name func =
     (let wrapper_data = FuncWrapper func;
          global = JS_GetGlobalObject ctx;
          func_obj = JS_NewCFunction Wrapper_registerSimpleFunction (c_str name) 0
      in JS_SetPropertyStr E ctx global (c_str name) func_obj)"

text \<open>The raw string literal that \<^verbatim>\<open>setConsoleLog\<close> evaluates first (lines 438-442).\<close>

definition console_script :: string where
  "console_script =
     [CHR 0x0A] @ ''            var console = {'' @
     [CHR 0x0A] @ ''                log: function() {}'' @
     [CHR 0x0A] @ ''            };'' @
     [CHR 0x0A] @ ''        ''"


section \<open>Definitions that follow the spec's words\<close>


text \<open>The decimal form of a 32-bit integer, as the interpreter prints numbers.\<close>

fun decimal :: "nat \<Rightarrow> string" where
  "decimal n =
     (if n < 10 then [''0123456789'' ! n]
      else decimal (n div 10) @ [''0123456789'' ! (n mod 10)])"

declare decimal.simps [simp del]

definition show_int32 :: "32 word \<Rightarrow> string" where
  "show_int32 i =
     (if sint i < 0 then ''-'' @ decimal (nat (- sint i)) else decimal (nat (sint i)))"

text \<open>
  Modelled from the spec: the interpreter itself is not among the wrapper's sources, and the
  spec describes it only through what evaluation gives back (sections 4.2 and 8:
  "numbers/booleans stringified by the interpreter's own coercion rules",
  \<^verbatim>\<open>setGlobal("x", 5); evaluate("x+1") = "6"\<close>). What reading a global back needs of an
  interpreter \<open>E\<close>, for the global \<open>name\<close>: the source text \<open>name\<close> evaluates to the
  value bound to that global and \<open>name+1\<close> to the successor of an integer binding,
  without changing anything; the numeric and boolean coercions give a host scalar's
  script value back as that scalar; a script string has the C string it was made from as
  its string form, and a 32-bit integer its decimal form.
\<close>

definition interpreter_reads_global :: "('i, 'h) engine \<Rightarrow> string \<Rightarrow> bool" where
  "interpreter_reads_global E name =
     (\<forall>ctx filename.
        (\<forall>v. globals ctx name = Some v \<longrightarrow> JS_Eval E ctx name filename = Inr (v, ctx)) \<and>
        (\<forall>i. globals ctx name = Some (JS_Int32 i) \<longrightarrow> i \<noteq> 0x7FFFFFFF \<longrightarrow>
           JS_Eval E ctx (name @ ''+1'') filename = Inr (JS_Int32 (i + 1), ctx)) \<and>
        (\<forall>i. JS_ToInt32 E ctx (JS_Int32 i) = (Some i, ctx)) \<and>
        (\<forall>d. JS_ToFloat64 E ctx (JS_Float64 d) = (Some d, ctx)) \<and>
        (\<forall>b. (JS_ToBool E ctx (JS_Bool b) \<noteq> 0) = b) \<and>
        (\<forall>s. JS_ToCString E ctx (JS_String s) = (Some (c_str s), ctx)) \<and>
        (\<forall>i. JS_ToCString E ctx (JS_Int32 i) = (Some (show_int32 i), ctx)))"

section \<open>A small interpreter instance and a fresh context\<close>

text \<open>
  The theorems below hold for every interpreter. To run them on concrete inputs, this
  instance evaluates a source text that is the name of a global to that global's value, a
  name followed by \<open>+1\<close> to that global plus one, \<^verbatim>\<open>throw Symbol()\<close> to a thrown symbol,
  the console script of \<^verbatim>\<open>setConsoleLog\<close> to a new \<open>console\<close> object, the declaration
  of \<^verbatim>\<open>len\<close> to a global bound to that function, and anything else to a
  ReferenceError. Its objects are property tables, numbered; object 1 is the empty
  function of the console script and object 2 is \<^verbatim>\<open>len\<close>, which returns the length of
  its string argument. Its coercions follow ECMAScript on the special values,
  booleans, 32-bit integers, strings, symbols and errors; it gives the remaining kinds of
  value no string form. It is not a JavaScript interpreter.
\<close>

type_synonym example_heap = "nat \<Rightarrow> string \<rightharpoonup> JSValue"

fun error_class_name :: "error_class \<Rightarrow> string" where
  "error_class_name InternalError = ''InternalError''"
| "error_class_name TypeError = ''TypeError''"
| "error_class_name ReferenceError = ''ReferenceError''"
| "error_class_name SyntaxError = ''SyntaxError''"

definition example_ToCString ::
  "(example_heap, string list) world \<Rightarrow> JSValue \<Rightarrow>
   string option \<times> (example_heap, string list) world" where
  "example_ToCString ctx v =
     (case v of
        JS_String s \<Rightarrow> (Some (c_str s), ctx)
      | JS_Int32 i \<Rightarrow> (Some (show_int32 i), ctx)
      | JS_Bool b \<Rightarrow> (Some (if b then ''true'' else ''false''), ctx)
      | JS_UNDEFINED \<Rightarrow> (Some ''undefined'', ctx)
      | JS_NULL \<Rightarrow> (Some ''null'', ctx)
      | JS_Error c m \<Rightarrow> (Some (error_class_name c @ '': '' @ m), ctx)
      | JS_Symbol d \<Rightarrow>
          (None, ctx\<lparr>current_exception := JS_Error TypeError ''cannot convert symbol to string''\<rparr>)
      | _ \<Rightarrow> (None, ctx))"

definition example_ToInt32 ::
  "(example_heap, string list) world \<Rightarrow> JSValue \<Rightarrow>
   32 word option \<times> (example_heap, string list) world" where
  "example_ToInt32 ctx v =
     (case v of
        JS_Int32 i \<Rightarrow> (Some i, ctx)
      | JS_Bool b \<Rightarrow> (Some (if b then 1 else 0), ctx)
      | JS_Symbol d \<Rightarrow>
          (Some 0, ctx\<lparr>current_exception := JS_Error TypeError ''cannot convert symbol to number''\<rparr>)
      | _ \<Rightarrow> (Some 0, ctx))"

definition example_ToFloat64 ::
  "(example_heap, string list) world \<Rightarrow> JSValue \<Rightarrow>
   64 word option \<times> (example_heap, string list) world" where
  "example_ToFloat64 ctx v =
     (case v of
        JS_Float64 d \<Rightarrow> (Some d, ctx)
      | _ \<Rightarrow> (Some 0x7FF8000000000000, ctx))"

definition example_ToBool :: "(example_heap, string list) world \<Rightarrow> JSValue \<Rightarrow> int" where
  "example_ToBool ctx v =
     (case v of
        JS_Bool b \<Rightarrow> (if b then 1 else 0)
      | JS_Int32 i \<Rightarrow> (if i = 0 then 0 else 1)
      | JS_String s \<Rightarrow> (if s = [] then 0 else 1)
      | JS_UNDEFINED \<Rightarrow> 0
      | JS_NULL \<Rightarrow> 0
      | JS_EXCEPTION \<Rightarrow> - 1
      | _ \<Rightarrow> 1)"

definition example_throw ::
  "(example_heap, string list) world \<Rightarrow> JSValue \<Rightarrow>
   fault + (JSValue \<times> (example_heap, string list) world)" where
  "example_throw ctx e = Inr (JS_EXCEPTION, ctx\<lparr>current_exception := e\<rparr>)"

definition len_script :: string where
  "len_script = ''function len(s) { return s.length; }''"

definition example_Eval ::
  "(example_heap, string list) world \<Rightarrow> string \<Rightarrow> string \<Rightarrow>
   fault + (JSValue \<times> (example_heap, string list) world)" where
  "example_Eval ctx code filename =
     (if code = console_script then
        Inr (JS_UNDEFINED,
          ctx\<lparr>globals := (globals ctx)(''console'' \<mapsto> JS_Object 0),
              interp := (interp ctx)(0 := [''log'' \<mapsto> JS_Object 1])\<rparr>)
      else if code = len_script then
        Inr (JS_UNDEFINED, ctx\<lparr>globals := (globals ctx)(''len'' \<mapsto> JS_Object 2)\<rparr>)
      else if code = ''throw Symbol()'' then example_throw ctx (JS_Symbol [])
      else if 2 < length code \<and> drop (length code - 2) code = ''+1'' then
        (case globals ctx (take (length code - 2) code) of
           Some (JS_Int32 i) \<Rightarrow>
             if i \<noteq> 0x7FFFFFFF then Inr (JS_Int32 (i + 1), ctx)
             else Inr (JS_Float64 0x41E0000000000000, ctx)
         | Some (JS_String s) \<Rightarrow> Inr (JS_String (s @ ''1''), ctx)
         | Some v \<Rightarrow> Inr (JS_Float64 0x7FF8000000000000, ctx)
         | None \<Rightarrow>
             example_throw ctx
               (JS_Error ReferenceError (take (length code - 2) code @ '' is not defined'')))
      else
        (case globals ctx code of
           Some v \<Rightarrow> Inr (v, ctx)
         | None \<Rightarrow> example_throw ctx (JS_Error ReferenceError (code @ '' is not defined''))))"

definition example_engine :: "(example_heap, string list) engine" where
  "example_engine =
     \<lparr>JS_Eval = example_Eval,
      JS_ToCString = example_ToCString,
      JS_ToInt32 = example_ToInt32,
      JS_ToFloat64 = example_ToFloat64,
      JS_ToBool = example_ToBool,
      object_is_function = (\<lambda>ctx v. v = JS_Object 1 \<or> v = JS_Object 2),
      object_call = (\<lambda>ctx f this_obj argv.
        if f = JS_Object 1 then Inr (JS_UNDEFINED, ctx)
        else if f = JS_Object 2 then
          (case argv of
             JS_String s # rest \<Rightarrow> Inr (JS_Int32 (of_nat (length s)), ctx)
           | _ \<Rightarrow> Inr (JS_UNDEFINED, ctx))
        else example_throw ctx (JS_Error TypeError ''not a function'')),
      object_get = (\<lambda>ctx obj prop.
        case obj of
          JS_Object r \<Rightarrow> (case interp ctx r prop of Some v \<Rightarrow> v | None \<Rightarrow> JS_UNDEFINED)
        | _ \<Rightarrow> JS_UNDEFINED),
      object_set = (\<lambda>ctx obj prop v.
        case obj of
          JS_Object r \<Rightarrow> ctx\<lparr>interp := (interp ctx)(r := (interp ctx r)(prop \<mapsto> v))\<rparr>
        | _ \<Rightarrow> ctx)\<rparr>"

text \<open>
  A context as \<^verbatim>\<open>JS_NewContext\<close> leaves it, as far as the wrapper can tell: the opaque
  pointer is null and no exception is pending. The globals every context starts with are
  left out. The host state is a log that the example closures append to; there is one
  regular file and one directory.
\<close>

definition fresh_world :: "(example_heap, string list) world" where
  "fresh_world =
     \<lparr>globals = Map.empty, context_opaque = None, current_exception = JS_UNINITIALIZED,
      interp = (\<lambda>r. Map.empty), host = [],
      files = [''plugin.js'' \<mapsto> regular_file ''missing'', ''/tmp'' \<mapsto> directory]\<rparr>"

text \<open>
  Host closures after those of \<^verbatim>\<open>QuickJSWrapper_Advanced_Examples.cpp\<close>; each
  appends to the log when it runs. \<open>multiply_text\<close> is \<^verbatim>\<open>multiply\<close> on arguments that
  are not numbers: with fewer than two it returns an error text, otherwise
  \<^verbatim>\<open>std::stod\<close> throws \<^verbatim>\<open>std::invalid_argument\<close>, whose \<^verbatim>\<open>what()\<close> is
  \<^verbatim>\<open>stod\<close>. \<open>readBinary\<close> is \<^verbatim>\<open>readFile\<close> on a file of the three bytes \<open>a\<close>, NUL,
  \<open>b\<close>. \<open>throwInt\<close> is a closure whose body is \<^verbatim>\<open>throw 42;\<close>.
\<close>

definition getVersion :: "string list JSCFunctionSimple" where
  "getVersion h = (Inr ''Luna Launcher v1.0.0'', h @ [''getVersion''])"

definition fetchData :: "string list JSCFunctionString" where
  "fetchData args h = (Inr ''fetched'', h @ [''fetchData''] @ args)"

definition logMessage :: "string list JSCFunctionString" where
  "logMessage args h = (Inr ''logged'', h @ [''logMessage''] @ args)"

definition multiply_text :: "string list JSCFunctionString" where
  "multiply_text args h =
     (if length args < 2 then (Inr ''Error: Need 2 arguments'', h @ [''multiply''])
      else (Inl (Std_exception ''stod''), h @ [''multiply'']))"


definition throwInt :: "string list JSCFunctionString" where
  "throwInt args h = (Inl Other_exception, h @ [''throwInt''])"


section \<open>Lemmas shared by the properties\<close>

lemmas interpreter_defs =
  JS_IsException_def JS_GetException_def JS_GetGlobalObject_def JS_NewString_def
  JS_NewInt32_def JS_NewFloat64_def JS_NewBool_def JS_NewCFunction_def JS_GetPropertyStr_def
  JS_SetPropertyStr_def JS_SetContextOpaque_def JS_GetContextOpaque_def
  JS_ThrowInternalError_def JS_IsFunction_def JS_Call_def script_call_def

lemmas example_defs =
  example_engine_def example_Eval_def example_ToCString_def example_ToInt32_def
  example_ToFloat64_def example_ToBool_def example_throw_def fresh_world_def
  console_script_def len_script_def c_str_def show_int32_def decimal.simps

subsection \<open>C strings\<close>

lemma c_str_text: "CHR 0x00 \<notin> set s \<Longrightarrow> c_str s = s"
  by (auto simp: c_str_def takeWhile_eq_all_conv)

lemma c_str_idem: "c_str (c_str s) = c_str s"
  by (simp add: c_str_def)

subsection \<open>What a registration changes\<close>

lemma registerFunction_fields:
  "globals (registerFunction E ctx name f) =
     (globals ctx)(c_str name \<mapsto> JS_CFunctionObj Wrapper_registerFunction (c_str name) 0)"
  "context_opaque (registerFunction E ctx name f) = Some (FunctionString f)"
  "host (registerFunction E ctx name f) = host ctx"
  by (simp_all add: registerFunction_def interpreter_defs)

lemma registerSimpleFunction_fields:
  "globals (registerSimpleFunction E ctx name g) =
     (globals ctx)(c_str name \<mapsto> JS_CFunctionObj Wrapper_registerSimpleFunction (c_str name) 0)"
  "context_opaque (registerSimpleFunction E ctx name g) = context_opaque ctx"
  "host (registerSimpleFunction E ctx name g) = host ctx"
  by (simp_all add: registerSimpleFunction_def interpreter_defs)

lemma registerFunction_twice:
  "registerFunction E (registerFunction E ctx name f) name g = registerFunction E ctx name g"
  by (simp add: registerFunction_def interpreter_defs)


lemma setGlobal_fields:
  "globals (setGlobal_string E ctx name s) = (globals ctx)(c_str name \<mapsto> JS_String (c_str s))"
  "globals (setGlobal_int E ctx name i) = (globals ctx)(c_str name \<mapsto> JS_Int32 i)"
  "globals (setGlobal_double E ctx name d) = (globals ctx)(c_str name \<mapsto> JS_Float64 d)"
  "globals (setGlobal_bool E ctx name b) = (globals ctx)(c_str name \<mapsto> JS_Bool b)"
  by (simp_all add: setGlobal_string_def setGlobal_int_def setGlobal_double_def
      setGlobal_bool_def interpreter_defs)

subsection \<open>What a trampoline does with the opaque pointer\<close>

lemma registerFunction_wrapper_call:
  assumes "context_opaque ctx = Some (FunctionString f)"
    and "convert_arguments E ctx argv [] = (args, ctx1)"
  shows "registerFunction_wrapper E ctx this_val argv =
     (case f args (host ctx1) of
        (Inr result, h) \<Rightarrow> Inr (JS_String (c_str result), ctx1\<lparr>host := h\<rparr>)
      | (Inl (Std_exception what), h) \<Rightarrow>
          Inr (JS_EXCEPTION, ctx1\<lparr>host := h, current_exception := JS_Error InternalError what\<rparr>)
      | (Inl Other_exception, h) \<Rightarrow> Inl (Foreign_Exception Other_exception))"
  using assms
  by (simp add: registerFunction_wrapper_def JS_GetContextOpaque_def JS_NewString_def
      JS_ThrowInternalError_def split: prod.splits sum.splits thrown.splits)




lemma script_call_trampoline:
  "globals ctx n = Some (JS_CFunctionObj k x l) \<Longrightarrow>
     script_call E ctx n argv = c_function k E ctx JS_UNDEFINED argv"
  by (simp add: script_call_def JS_Call_def JS_GetPropertyStr_def)

lemma script_call_registerFunction:
  assumes "convert_arguments E (registerFunction E ctx name f) argv [] = (args, ctx1)"
  shows "script_call E (registerFunction E ctx name f) (c_str name) argv =
     (case f args (host ctx1) of
        (Inr result, h) \<Rightarrow> Inr (JS_String (c_str result), ctx1\<lparr>host := h\<rparr>)
      | (Inl (Std_exception what), h) \<Rightarrow>
          Inr (JS_EXCEPTION, ctx1\<lparr>host := h, current_exception := JS_Error InternalError what\<rparr>)
      | (Inl Other_exception, h) \<Rightarrow> Inl (Foreign_Exception Other_exception))"
  using registerFunction_wrapper_call [OF registerFunction_fields(2) assms]
  by (simp add: script_call_trampoline registerFunction_fields)

lemma script_call_registerSimpleFunction:
  "script_call E (registerSimpleFunction E ctx name g) (c_str name) argv =
     registerSimpleFunction_wrapper E (registerSimpleFunction E ctx name g) JS_UNDEFINED argv"
  by (simp add: script_call_trampoline registerSimpleFunction_fields)

subsection \<open>The argument loop\<close>




subsection \<open>Reading a file\<close>


subsection \<open>The example interpreter\<close>

lemma example_engine_reads_globals: "interpreter_reads_global example_engine ''x''"
  unfolding interpreter_reads_global_def
  by (auto simp: example_engine_def example_Eval_def example_ToCString_def example_ToInt32_def
      example_ToFloat64_def example_ToBool_def console_script_def len_script_def)

lemma example_names:
  "c_str ''<eval>'' = ''<eval>''" "c_str ''x'' = ''x''" "c_str ''fetchData'' = ''fetchData''"
  "c_str ''logMessage'' = ''logMessage''" "c_str ''getVersion'' = ''getVersion''"
  "c_str ''multiply'' = ''multiply''"
  by (simp_all add: c_str_def)


section \<open>Properties of the Context\<close>



text \<open>
  C2, as the code has it. For every name and every sequence of string arguments,
  \<open>callFunction\<close> throws \<open>JSException\<close> with \<open>Not a function: name\<close> when the
  global binding of the name is not invocable, in particular when it is absent, and then
  leaves the whole state as it was, so no call took place. Otherwise it calls the
  binding once, with the global object as receiver and, in order, one script string for
  each argument, made from the argument's bytes before its first NUL byte. It then
  returns or throws as \<open>eval\<close> does: a fault of the call is passed on; a returned value
  gives its string form, or the empty string if it has none; \<open>JS_EXCEPTION\<close> gives
  \<open>JSException\<close> with the string form of the pending exception, or \<open>Unknown error\<close>;
  and whenever the call ends as the evaluation of some source text ends,
  \<open>callFunction\<close> and \<open>eval\<close> of that text give the same.
\<close>

theorem callFunction_result:
  "(\<not> JS_IsFunction E ctx (JS_GetPropertyStr E ctx JS_GlobalObject (c_str funcName)) \<longrightarrow>
      callFunction E ctx funcName args =
        Inr (Inl (JSException (''Not a function: '' @ funcName)), ctx)) \<and>
   (globals ctx (c_str funcName) = None \<longrightarrow>
      callFunction E ctx funcName args =
        Inr (Inl (JSException (''Not a function: '' @ funcName)), ctx)) \<and>
   (JS_IsFunction E ctx (JS_GetPropertyStr E ctx JS_GlobalObject (c_str funcName)) \<longrightarrow>
      (JS_Call E ctx (JS_GetPropertyStr E ctx JS_GlobalObject (c_str funcName))
         JS_GlobalObject (map (\<lambda>arg. JS_String (c_str arg)) args) = Inl flt \<longrightarrow>
       callFunction E ctx funcName args = Inl flt) \<and>
      (JS_Call E ctx (JS_GetPropertyStr E ctx JS_GlobalObject (c_str funcName))
         JS_GlobalObject (map (\<lambda>arg. JS_String (c_str arg)) args) = Inr (result, ctx1) \<longrightarrow>
       result \<noteq> JS_EXCEPTION \<longrightarrow>
       callFunction E ctx funcName args =
         Inr (Inr (case fst (JS_ToCString E ctx1 result) of Some s \<Rightarrow> s | None \<Rightarrow> []),
              snd (JS_ToCString E ctx1 result))) \<and>
      (JS_Call E ctx (JS_GetPropertyStr E ctx JS_GlobalObject (c_str funcName))
         JS_GlobalObject (map (\<lambda>arg. JS_String (c_str arg)) args) = Inr (JS_EXCEPTION, ctx1) \<longrightarrow>
       callFunction E ctx funcName args =
         Inr (Inl (JSException
                (case fst (JS_ToCString E (ctx1\<lparr>current_exception := JS_UNINITIALIZED\<rparr>)
                            (current_exception ctx1)) of
                   Some s \<Rightarrow> s | None \<Rightarrow> ''Unknown error'')),
              snd (JS_ToCString E (ctx1\<lparr>current_exception := JS_UNINITIALIZED\<rparr>)
                     (current_exception ctx1)))) \<and>
      (\<forall>ctx0 code filename.
         JS_Call E ctx (JS_GetPropertyStr E ctx JS_GlobalObject (c_str funcName))
           JS_GlobalObject (map (\<lambda>arg. JS_String (c_str arg)) args) =
         JS_Eval E ctx0 code (c_str filename) \<longrightarrow>
         callFunction E ctx funcName args = eval E ctx0 code filename))"
proof -
  let ?func = "JS_GetPropertyStr E ctx JS_GlobalObject (c_str funcName)"
  let ?call = "JS_Call E ctx ?func JS_GlobalObject (map (\<lambda>arg. JS_String (c_str arg)) args)"
  have absent: "globals ctx (c_str funcName) = None \<Longrightarrow> \<not> JS_IsFunction E ctx ?func"
    by (simp add: JS_GetPropertyStr_def JS_IsFunction_def)
  have not_callable:
    "\<not> JS_IsFunction E ctx ?func \<Longrightarrow>
      callFunction E ctx funcName args =
        Inr (Inl (JSException (''Not a function: '' @ funcName)), ctx)"
    by (simp add: callFunction_def JS_GetGlobalObject_def)
  have unfolded: "callFunction E ctx funcName args =
      (case ?call of
         Inl f \<Rightarrow> Inl f
       | Inr (result, ctx1) \<Rightarrow>
           if result = JS_EXCEPTION then
             Inr (Inl (JSException
                (case fst (JS_ToCString E (ctx1\<lparr>current_exception := JS_UNINITIALIZED\<rparr>)
                            (current_exception ctx1)) of
                   Some s \<Rightarrow> s | None \<Rightarrow> ''Unknown error'')),
              snd (JS_ToCString E (ctx1\<lparr>current_exception := JS_UNINITIALIZED\<rparr>)
                     (current_exception ctx1)))
           else
             Inr (Inr (case fst (JS_ToCString E ctx1 result) of Some s \<Rightarrow> s | None \<Rightarrow> []),
                  snd (JS_ToCString E ctx1 result)))"
    if "JS_IsFunction E ctx ?func"
    using that
    by (simp add: callFunction_def JS_GetGlobalObject_def JS_NewString_def JS_IsException_def
        JS_GetException_def split: sum.splits prod.splits)
  have callable:
    "callFunction E ctx funcName args = eval E ctx0 code filename"
    if "JS_IsFunction E ctx ?func" and "?call = JS_Eval E ctx0 code (c_str filename)"
    for ctx0 code filename
    using that
    by (simp add: callFunction_def eval_def JS_GetGlobalObject_def JS_NewString_def)
  show ?thesis
    using absent not_callable callable unfolded by simp
qed

text \<open>
  On the example interpreter: an absent name, a global that is a number, and a registered
  function, whose call returns a string and ends as the evaluation of a global holding
  the same string does.
\<close>

theorem callFunction_result_witness:
  "callFunction example_engine fresh_world ''missing'' [] =
     Inr (Inl (JSException ''Not a function: missing''), fresh_world) \<and>
   callFunction example_engine (setGlobal_int example_engine fresh_world ''x'' 5) ''x'' [''1''] =
     Inr (Inl (JSException ''Not a function: x''), setGlobal_int example_engine fresh_world ''x'' 5) \<and>
   callFunction example_engine
     (registerFunction example_engine
        (setGlobal_string example_engine fresh_world ''answer'' ''fetched'')
        ''fetchData'' fetchData)
     ''fetchData'' [''a'', ''b''] =
   Inr (Inr ''fetched'',
     (registerFunction example_engine
        (setGlobal_string example_engine fresh_world ''answer'' ''fetched'')
        ''fetchData'' fetchData)\<lparr>host := [''fetchData'', ''a'', ''b'']\<rparr>) \<and>
   callFunction example_engine
     (registerFunction example_engine
        (setGlobal_string example_engine fresh_world ''answer'' ''fetched'')
        ''fetchData'' fetchData)
     ''fetchData'' [''a'', ''b''] =
   eval example_engine
     ((registerFunction example_engine
        (setGlobal_string example_engine fresh_world ''answer'' ''fetched'')
        ''fetchData'' fetchData)\<lparr>host := [''fetchData'', ''a'', ''b'']\<rparr>)
     ''answer'' ''<eval>''"
proof -
  let ?x = "setGlobal_int example_engine fresh_world ''x'' 5"
  let ?w = "registerFunction example_engine
        (setGlobal_string example_engine fresh_world ''answer'' ''fetched'')
        ''fetchData'' fetchData"
  let ?w' = "?w\<lparr>host := [''fetchData'', ''a'', ''b'']\<rparr>"
  have absent: "globals fresh_world (c_str ''missing'') = None"
    by (simp add: example_defs)
  have not_invocable:
    "\<not> JS_IsFunction example_engine ?x (JS_GetPropertyStr example_engine ?x JS_GlobalObject (c_str ''x''))"
    by (simp add: setGlobal_int_def interpreter_defs example_defs)
  have invocable:
    "JS_IsFunction example_engine ?w
       (JS_GetPropertyStr example_engine ?w JS_GlobalObject (c_str ''fetchData''))"
    by (simp add: registerFunction_def setGlobal_string_def interpreter_defs example_defs)
  have call: "JS_Call example_engine ?w
       (JS_GetPropertyStr example_engine ?w JS_GlobalObject (c_str ''fetchData''))
       JS_GlobalObject (map (\<lambda>arg. JS_String (c_str arg)) [''a'', ''b'']) =
     Inr (JS_String ''fetched'', ?w')"
    by (simp add: registerFunction_def setGlobal_string_def registerFunction_wrapper_def
        fetchData_def interpreter_defs example_defs)
  have ev: "JS_Eval example_engine ?w' ''answer'' (c_str ''<eval>'') =
     Inr (JS_String ''fetched'', ?w')"
    by (simp add: registerFunction_def setGlobal_string_def interpreter_defs example_defs)
  have str: "JS_ToCString example_engine ?w' (JS_String ''fetched'') = (Some ''fetched'', ?w')"
    by (simp add: example_engine_def example_ToCString_def c_str_def)
  have c1: "callFunction example_engine fresh_world ''missing'' [] =
     Inr (Inl (JSException ''Not a function: missing''), fresh_world)"
    using callFunction_result [of example_engine fresh_world "''missing''" "[]"] absent
    by simp
  have c2: "callFunction example_engine ?x ''x'' [''1''] =
     Inr (Inl (JSException ''Not a function: x''), ?x)"
    using callFunction_result [of example_engine ?x "''x''" "[''1'']"] not_invocable
    by simp
  note r = callFunction_result [where E = example_engine and ctx = ?w
      and funcName = "''fetchData''" and args = "[''a'', ''b'']"
      and result = "JS_String ''fetched''" and ?ctx1.0 = ?w']
  have c3: "callFunction example_engine ?w ''fetchData'' [''a'', ''b''] =
      Inr (Inr ''fetched'', ?w')"
    using r invocable call str by simp
  have c4: "callFunction example_engine ?w ''fetchData'' [''a'', ''b''] =
      eval example_engine ?w' ''answer'' ''<eval>''"
    using r invocable call ev by metis
  show ?thesis
    using c1 c2 c3 c4 by simp
qed

text \<open>
  C2 as the spec states it fails for an argument with a NUL byte inside: \<open>callFunction\<close>
  passes \<^verbatim>\<open>arg.c_str()\<close> to \<^verbatim>\<open>JS_NewString\<close>. After the script
  \<^verbatim>\<open>function len(s) { return s.length; }\<close>, \<open>len\<close> called with the two bytes \<open>ab\<close>
  returns \<open>2\<close>, and called with the three bytes \<open>a\<close>, NUL, \<open>b\<close> it returns \<open>1\<close>: the
  function got the script string \<open>a\<close>.
\<close>

theorem callFunction_argument_counterexample:
  "eval example_engine fresh_world len_script ''<eval>'' =
     Inr (Inr ''undefined'', fresh_world\<lparr>globals := [''len'' \<mapsto> JS_Object 2]\<rparr>) \<and>
   callFunction example_engine (fresh_world\<lparr>globals := [''len'' \<mapsto> JS_Object 2]\<rparr>)
     ''len'' [''ab''] =
     Inr (Inr ''2'', fresh_world\<lparr>globals := [''len'' \<mapsto> JS_Object 2]\<rparr>) \<and>
   callFunction example_engine (fresh_world\<lparr>globals := [''len'' \<mapsto> JS_Object 2]\<rparr>)
     ''len'' [[CHR ''a'', CHR 0x00, CHR ''b'']] =
     Inr (Inr ''1'', fresh_world\<lparr>globals := [''len'' \<mapsto> JS_Object 2]\<rparr>) \<and>
   map (\<lambda>arg. JS_NewString (c_str arg)) [[CHR ''a'', CHR 0x00, CHR ''b'']] = [JS_String ''a''] \<and>
   JS_String ''a'' \<noteq> JS_String [CHR ''a'', CHR 0x00, CHR ''b'']"
  by (simp add: eval_def callFunction_def interpreter_defs example_defs)

text \<open>
  C6. For every source text, \<open>evalAsInt\<close>, \<open>evalAsDouble\<close> and \<open>evalAsBool\<close> run the
  same evaluation as \<open>eval\<close>: they fault when it faults, and when the evaluation ends in
  an exception all four throw the same \<open>JSException\<close> and leave the same state. When it
  ends in a value, \<open>eval\<close> returns a string and the typed variants return what the
  interpreter's own coercion of that value gives, whatever the value is: the outcome is
  a returned scalar, never a thrown host error.
\<close>

theorem typed_eval_result:
  "(JS_Eval E ctx code (c_str filename) = Inl flt \<longrightarrow>
      eval E ctx code filename = Inl flt \<and> evalAsInt E ctx code filename = Inl flt \<and>
      evalAsDouble E ctx code filename = Inl flt \<and> evalAsBool E ctx code filename = Inl flt) \<and>
   (JS_Eval E ctx code (c_str filename) = Inr (JS_EXCEPTION, ctx1) \<longrightarrow>
      (\<exists>e ctx2. eval E ctx code filename = Inr (Inl e, ctx2) \<and>
         evalAsInt E ctx code filename = Inr (Inl e, ctx2) \<and>
         evalAsDouble E ctx code filename = Inr (Inl e, ctx2) \<and>
         evalAsBool E ctx code filename = Inr (Inl e, ctx2))) \<and>
   (JS_Eval E ctx code (c_str filename) = Inr (val, ctx1) \<longrightarrow> val \<noteq> JS_EXCEPTION \<longrightarrow>
      (\<exists>s ctx2. eval E ctx code filename = Inr (Inr s, ctx2)) \<and>
      evalAsInt E ctx code filename =
        Inr (Inr (case fst (JS_ToInt32 E ctx1 val) of Some r \<Rightarrow> r | None \<Rightarrow> 0),
             snd (JS_ToInt32 E ctx1 val)) \<and>
      evalAsDouble E ctx code filename =
        Inr (Inr (case fst (JS_ToFloat64 E ctx1 val) of Some r \<Rightarrow> r | None \<Rightarrow> 0),
             snd (JS_ToFloat64 E ctx1 val)) \<and>
      evalAsBool E ctx code filename = Inr (Inr (JS_ToBool E ctx1 val \<noteq> 0), ctx1))"
  by (simp add: eval_def evalAsInt_def evalAsDouble_def evalAsBool_def JS_IsException_def
      JS_GetException_def split: prod.splits)

text \<open>
  On the example interpreter: a global holding the text \<open>abc\<close> read as an integer, as a
  double (the bit pattern is that of a not-a-number) and as a boolean, and an unbound
  name.
\<close>

theorem typed_eval_result_witness:
  "evalAsInt example_engine (setGlobal_string example_engine fresh_world ''s'' ''abc'') ''s''
     ''<eval>'' =
     Inr (Inr 0, setGlobal_string example_engine fresh_world ''s'' ''abc'') \<and>
   evalAsDouble example_engine (setGlobal_string example_engine fresh_world ''s'' ''abc'') ''s''
     ''<eval>'' =
     Inr (Inr 0x7FF8000000000000, setGlobal_string example_engine fresh_world ''s'' ''abc'') \<and>
   evalAsBool example_engine (setGlobal_string example_engine fresh_world ''s'' ''abc'') ''s''
     ''<eval>'' =
     Inr (Inr True, setGlobal_string example_engine fresh_world ''s'' ''abc'') \<and>
   evalAsInt example_engine fresh_world ''y'' ''<eval>'' =
     Inr (Inl (JSException ''ReferenceError: y is not defined''), fresh_world)"
proof -
  let ?w = "setGlobal_string example_engine fresh_world ''s'' ''abc''"
  have h1: "JS_Eval example_engine ?w ''s'' (c_str ''<eval>'') = Inr (JS_String ''abc'', ?w)"
    by (simp add: setGlobal_string_def interpreter_defs example_defs)
  have h2: "JS_Eval example_engine fresh_world ''y'' (c_str ''<eval>'') =
      Inr (JS_EXCEPTION,
        fresh_world\<lparr>current_exception := JS_Error ReferenceError ''y is not defined''\<rparr>)"
    by (simp add: interpreter_defs example_defs)
  have e2: "eval example_engine fresh_world ''y'' ''<eval>'' =
     Inr (Inl (JSException ''ReferenceError: y is not defined''), fresh_world)"
    by (simp add: eval_def interpreter_defs example_defs)
  have t1: "evalAsInt example_engine ?w ''s'' ''<eval>'' =
        Inr (Inr (case fst (JS_ToInt32 example_engine ?w (JS_String ''abc'')) of
                    Some r \<Rightarrow> r | None \<Rightarrow> 0),
             snd (JS_ToInt32 example_engine ?w (JS_String ''abc''))) \<and>
      evalAsDouble example_engine ?w ''s'' ''<eval>'' =
        Inr (Inr (case fst (JS_ToFloat64 example_engine ?w (JS_String ''abc'')) of
                    Some r \<Rightarrow> r | None \<Rightarrow> 0),
             snd (JS_ToFloat64 example_engine ?w (JS_String ''abc''))) \<and>
      evalAsBool example_engine ?w ''s'' ''<eval>'' =
        Inr (Inr (JS_ToBool example_engine ?w (JS_String ''abc'') \<noteq> 0), ?w)"
    using typed_eval_result [of example_engine ?w "''s''" "''<eval>''" _ ?w "JS_String ''abc''"] h1
    by simp
  have t2: "\<exists>e ctx2. eval example_engine fresh_world ''y'' ''<eval>'' = Inr (Inl e, ctx2) \<and>
         evalAsInt example_engine fresh_world ''y'' ''<eval>'' = Inr (Inl e, ctx2)"
    using typed_eval_result [of example_engine fresh_world "''y''" "''<eval>''" _
        "fresh_world\<lparr>current_exception := JS_Error ReferenceError ''y is not defined''\<rparr>"
        JS_EXCEPTION] h2
    by blast
  have i2: "evalAsInt example_engine fresh_world ''y'' ''<eval>'' =
     Inr (Inl (JSException ''ReferenceError: y is not defined''), fresh_world)"
    using t2 e2 by auto
  show ?thesis
    using t1 i2 by (simp add: example_defs)
qed




text \<open>
  C8, as the code has it. A 32-bit integer, a double or a boolean installed by
  \<open>setGlobal\<close> is read back unchanged by a later evaluation of the global's name through
  the variant of its type, and a string is read back by \<open>eval\<close> up to its first NUL
  byte, so unchanged when it has none; after \<open>setGlobal\<close> of an integer other than the
  largest, evaluating the name followed by \<open>+1\<close> returns the decimal form of its
  successor. This holds for every interpreter that reads the global as
  \<open>interpreter_reads_global\<close> says. The name reaches the interpreter as a C string.
\<close>

theorem setGlobal_read_back:
  assumes "interpreter_reads_global E (c_str name)"
  shows "evalAsInt E (setGlobal_int E ctx name i) (c_str name) filename =
           Inr (Inr i, setGlobal_int E ctx name i) \<and>
         evalAsDouble E (setGlobal_double E ctx name d) (c_str name) filename =
           Inr (Inr d, setGlobal_double E ctx name d) \<and>
         evalAsBool E (setGlobal_bool E ctx name b) (c_str name) filename =
           Inr (Inr b, setGlobal_bool E ctx name b) \<and>
         eval E (setGlobal_string E ctx name s) (c_str name) filename =
           Inr (Inr (c_str s), setGlobal_string E ctx name s) \<and>
         (CHR 0x00 \<notin> set s \<longrightarrow>
            eval E (setGlobal_string E ctx name s) (c_str name) filename =
              Inr (Inr s, setGlobal_string E ctx name s)) \<and>
         (i \<noteq> 0x7FFFFFFF \<longrightarrow>
            eval E (setGlobal_int E ctx name i) (c_str name @ ''+1'') filename =
              Inr (Inr (show_int32 (i + 1)), setGlobal_int E ctx name i))"
proof -
  have ev: "globals w (c_str name) = Some v \<Longrightarrow> JS_Eval E w (c_str name) fn = Inr (v, w)"
    for w v fn
    using assms unfolding interpreter_reads_global_def by blast
  have add: "globals w (c_str name) = Some (JS_Int32 j) \<Longrightarrow> j \<noteq> 0x7FFFFFFF \<Longrightarrow>
      JS_Eval E w (c_str name @ ''+1'') fn = Inr (JS_Int32 (j + 1), w)" for w j fn
    using assms unfolding interpreter_reads_global_def by blast
  have to_int: "JS_ToInt32 E w (JS_Int32 j) = (Some j, w)" for w j
    using assms unfolding interpreter_reads_global_def by blast
  have to_double: "JS_ToFloat64 E w (JS_Float64 x) = (Some x, w)" for w x
    using assms unfolding interpreter_reads_global_def by blast
  have to_bool: "(JS_ToBool E w (JS_Bool x) \<noteq> 0) = x" for w x
    using assms unfolding interpreter_reads_global_def by blast
  have to_str: "JS_ToCString E w (JS_String x) = (Some (c_str x), w)" for w x
    using assms unfolding interpreter_reads_global_def by blast
  have int_str: "JS_ToCString E w (JS_Int32 j) = (Some (show_int32 j), w)" for w j
    using assms unfolding interpreter_reads_global_def by blast
  have 1: "evalAsInt E (setGlobal_int E ctx name i) (c_str name) filename =
           Inr (Inr i, setGlobal_int E ctx name i)"
    by (simp add: evalAsInt_def ev setGlobal_fields to_int JS_IsException_def)
  have 2: "evalAsDouble E (setGlobal_double E ctx name d) (c_str name) filename =
           Inr (Inr d, setGlobal_double E ctx name d)"
    by (simp add: evalAsDouble_def ev setGlobal_fields to_double JS_IsException_def)
  have 3: "evalAsBool E (setGlobal_bool E ctx name b) (c_str name) filename =
           Inr (Inr b, setGlobal_bool E ctx name b)"
    using to_bool by (simp add: evalAsBool_def ev setGlobal_fields JS_IsException_def)
  have 4: "eval E (setGlobal_string E ctx name s) (c_str name) filename =
           Inr (Inr (c_str s), setGlobal_string E ctx name s)"
    by (simp add: eval_def ev setGlobal_fields to_str JS_IsException_def c_str_idem)
  have 5: "i \<noteq> 0x7FFFFFFF \<Longrightarrow>
            eval E (setGlobal_int E ctx name i) (c_str name @ ''+1'') filename =
              Inr (Inr (show_int32 (i + 1)), setGlobal_int E ctx name i)"
    by (simp add: eval_def add setGlobal_fields int_str JS_IsException_def)
  show ?thesis
    using 1 2 3 4 5 by (simp add: c_str_text)
qed

text \<open>
  On the example interpreter, which reads the global \<open>x\<close> as required: after
  \<open>setGlobal\<close> of \<open>x\<close> to 5, evaluating \<open>x+1\<close> returns \<open>6\<close>; an integer, a boolean, a
  double and a text are read back.
\<close>

theorem setGlobal_read_back_witness:
  "interpreter_reads_global example_engine (c_str ''x'') \<and>
   eval example_engine (setGlobal_int example_engine fresh_world ''x'' 5) ''x+1'' ''<eval>'' =
     Inr (Inr ''6'', setGlobal_int example_engine fresh_world ''x'' 5) \<and>
   evalAsInt example_engine (setGlobal_int example_engine fresh_world ''x'' 5) ''x'' ''<eval>'' =
     Inr (Inr 5, setGlobal_int example_engine fresh_world ''x'' 5) \<and>
   evalAsBool example_engine (setGlobal_bool example_engine fresh_world ''x'' True) ''x''
     ''<eval>'' =
     Inr (Inr True, setGlobal_bool example_engine fresh_world ''x'' True) \<and>
   evalAsDouble example_engine
     (setGlobal_double example_engine fresh_world ''x'' 0x400921FB54442D18) ''x'' ''<eval>'' =
     Inr (Inr 0x400921FB54442D18,
       setGlobal_double example_engine fresh_world ''x'' 0x400921FB54442D18) \<and>
   eval example_engine (setGlobal_string example_engine fresh_world ''x'' ''https://api.example.com'')
     ''x'' ''<eval>'' =
     Inr (Inr ''https://api.example.com'',
       setGlobal_string example_engine fresh_world ''x'' ''https://api.example.com'')"
proof -
  have n: "c_str ''x'' = ''x''"
    by (simp add: c_str_def)
  have h: "interpreter_reads_global example_engine (c_str ''x'')"
    using example_engine_reads_globals n by simp
  have six: "show_int32 (5 + 1) = ''6''"
    by (simp add: show_int32_def decimal.simps)
  have url: "c_str ''https://api.example.com'' = ''https://api.example.com''"
    by (simp add: c_str_def)
  show ?thesis
    using h n six url
      setGlobal_read_back [OF h, where ctx = fresh_world and i = 5 and filename = "''<eval>''"
        and b = True and d = "0x400921FB54442D18" and s = "''https://api.example.com''"]
    by simp
qed

text \<open>
  C8 as the spec states it fails for a string with a NUL byte inside: \<open>setGlobal\<close> passes
  \<^verbatim>\<open>value.c_str()\<close> to \<^verbatim>\<open>JS_NewString\<close>, so the three bytes \<open>a\<close>, NUL, \<open>b\<close> are
  installed and read back as \<open>a\<close>.
\<close>

theorem setGlobal_string_counterexample:
  "globals (setGlobal_string example_engine fresh_world ''x'' [CHR ''a'', CHR 0x00, CHR ''b''])
     ''x'' = Some (JS_String ''a'') \<and>
   eval example_engine
     (setGlobal_string example_engine fresh_world ''x'' [CHR ''a'', CHR 0x00, CHR ''b''])
     ''x'' ''<eval>'' =
   Inr (Inr ''a'',
     setGlobal_string example_engine fresh_world ''x'' [CHR ''a'', CHR 0x00, CHR ''b'']) \<and>
   ''a'' \<noteq> [CHR ''a'', CHR 0x00, CHR ''b'']"
  by (simp add: eval_def setGlobal_string_def interpreter_defs example_defs)


section \<open>Properties of the FunctionBridge\<close>

text \<open>
  C3, as the code has it. Take any state in which a global is bound to the
  \<open>registerFunction\<close> trampoline and the opaque pointer holds a closure stored by
  \<open>registerFunction\<close>, and a script call to that global, which runs the closure. If
  the closure throws an exception derived from \<^verbatim>\<open>std::exception\<close> with message
  \<open>what\<close>, the call returns \<open>JS_EXCEPTION\<close> to the interpreter with an InternalError
  carrying \<open>what\<close> as the pending exception: the calling script frame sees a script
  exception. If the closure throws anything else, the trampoline does not catch it and
  the C++ exception leaves it; that is the only way a C++ exception leaves this
  trampoline. \<open>registerFunction\<close> itself only binds the name and stores the closure,
  without running it. A host frame that calls the function through \<open>callFunction\<close>
  gets such a fault as \<open>JSException\<close> with the string form of the InternalError.
\<close>

theorem host_fault_becomes_script_exception:
  "(globals ctx n = Some (JS_CFunctionObj Wrapper_registerFunction x l) \<longrightarrow>
    context_opaque ctx = Some (FunctionString f) \<longrightarrow>
    convert_arguments E ctx argv [] = (args, ctx1) \<longrightarrow>
      (f args (host ctx1) = (Inl (Std_exception what), h) \<longrightarrow>
         script_call E ctx n argv =
           Inr (JS_EXCEPTION,
             ctx1\<lparr>host := h, current_exception := JS_Error InternalError what\<rparr>)) \<and>
      (f args (host ctx1) = (Inl Other_exception, h) \<longrightarrow>
         script_call E ctx n argv = Inl (Foreign_Exception Other_exception)) \<and>
      (script_call E ctx n argv = Inl (Foreign_Exception t) \<longrightarrow>
         t = Other_exception \<and> (\<exists>h'. f args (host ctx1) = (Inl Other_exception, h')))) \<and>
   registerFunction E ctx name f =
     ctx\<lparr>globals :=
           (globals ctx)(c_str name \<mapsto> JS_CFunctionObj Wrapper_registerFunction (c_str name) 0),
         context_opaque := Some (FunctionString f)\<rparr> \<and>
   (convert_arguments E (registerFunction E ctx name f)
      (map (\<lambda>arg. JS_String (c_str arg)) sargs) [] = (args, ctx1) \<longrightarrow>
    f args (host ctx1) = (Inl (Std_exception what), h) \<longrightarrow>
      callFunction E (registerFunction E ctx name f) name sargs =
        Inr (Inl (JSException
               (case fst (JS_ToCString E
                            (ctx1\<lparr>host := h, current_exception := JS_UNINITIALIZED\<rparr>)
                            (JS_Error InternalError what)) of
                  Some s \<Rightarrow> s | None \<Rightarrow> ''Unknown error'')),
             snd (JS_ToCString E (ctx1\<lparr>host := h, current_exception := JS_UNINITIALIZED\<rparr>)
                    (JS_Error InternalError what))))"
proof -
  have call: "script_call E ctx n argv =
      (case f args (host ctx1) of
         (Inr result, h) \<Rightarrow> Inr (JS_String (c_str result), ctx1\<lparr>host := h\<rparr>)
       | (Inl (Std_exception what), h) \<Rightarrow>
           Inr (JS_EXCEPTION, ctx1\<lparr>host := h, current_exception := JS_Error InternalError what\<rparr>)
       | (Inl Other_exception, h) \<Rightarrow> Inl (Foreign_Exception Other_exception))"
    if "globals ctx n = Some (JS_CFunctionObj Wrapper_registerFunction x l)"
      and "context_opaque ctx = Some (FunctionString f)"
      and "convert_arguments E ctx argv [] = (args, ctx1)"
    using registerFunction_wrapper_call [OF that(2,3)] that(1)
    by (simp add: script_call_trampoline)
  have a: "script_call E ctx n argv =
           Inr (JS_EXCEPTION,
             ctx1\<lparr>host := h, current_exception := JS_Error InternalError what\<rparr>)"
    if "globals ctx n = Some (JS_CFunctionObj Wrapper_registerFunction x l)"
      and "context_opaque ctx = Some (FunctionString f)"
      and "convert_arguments E ctx argv [] = (args, ctx1)"
      and "f args (host ctx1) = (Inl (Std_exception what), h)"
    using call [OF that(1,2,3)] that(4) by simp
  have b: "script_call E ctx n argv = Inl (Foreign_Exception Other_exception)"
    if "globals ctx n = Some (JS_CFunctionObj Wrapper_registerFunction x l)"
      and "context_opaque ctx = Some (FunctionString f)"
      and "convert_arguments E ctx argv [] = (args, ctx1)"
      and "f args (host ctx1) = (Inl Other_exception, h)"
    using call [OF that(1,2,3)] that(4) by simp
  have c: "t = Other_exception \<and> (\<exists>h'. f args (host ctx1) = (Inl Other_exception, h'))"
    if "globals ctx n = Some (JS_CFunctionObj Wrapper_registerFunction x l)"
      and "context_opaque ctx = Some (FunctionString f)"
      and "convert_arguments E ctx argv [] = (args, ctx1)"
      and "script_call E ctx n argv = Inl (Foreign_Exception t)"
    using call [OF that(1,2,3)] that(4)
    by (auto split: prod.splits sum.splits thrown.splits)
  have d: "registerFunction E ctx name f =
     ctx\<lparr>globals :=
           (globals ctx)(c_str name \<mapsto> JS_CFunctionObj Wrapper_registerFunction (c_str name) 0),
         context_opaque := Some (FunctionString f)\<rparr>"
    by (simp add: registerFunction_def interpreter_defs)
  have e: "callFunction E (registerFunction E ctx name f) name sargs =
        Inr (Inl (JSException
               (case fst (JS_ToCString E
                            (ctx1\<lparr>host := h, current_exception := JS_UNINITIALIZED\<rparr>)
                            (JS_Error InternalError what)) of
                  Some s \<Rightarrow> s | None \<Rightarrow> ''Unknown error'')),
             snd (JS_ToCString E (ctx1\<lparr>host := h, current_exception := JS_UNINITIALIZED\<rparr>)
                    (JS_Error InternalError what)))"
    if "convert_arguments E (registerFunction E ctx name f)
          (map (\<lambda>arg. JS_String (c_str arg)) sargs) [] = (args, ctx1)"
      and "f args (host ctx1) = (Inl (Std_exception what), h)"
  proof -
    have "registerFunction_wrapper E (registerFunction E ctx name f) JS_GlobalObject
        (map (\<lambda>arg. JS_String (c_str arg)) sargs) =
        Inr (JS_EXCEPTION, ctx1\<lparr>host := h, current_exception := JS_Error InternalError what\<rparr>)"
      using registerFunction_wrapper_call [OF registerFunction_fields(2) that(1)] that(2)
      by simp
    then show ?thesis
      by (simp add: callFunction_def JS_GetGlobalObject_def JS_GetPropertyStr_def
          registerFunction_fields JS_IsFunction_def JS_NewString_def JS_Call_def
          JS_IsException_def JS_GetException_def split: prod.splits)
  qed
  show ?thesis
    using a b c d e by blast
qed

text \<open>
  On the example interpreter: \<open>multiply\<close> called from script, and by the host through
  \<open>callFunction\<close>, with two texts that are not numbers.
\<close>

theorem host_fault_becomes_script_exception_witness:
  "script_call example_engine (registerFunction example_engine fresh_world ''multiply'' multiply_text)
     ''multiply'' [JS_String ''five'', JS_String ''ten''] =
   Inr (JS_EXCEPTION,
     (registerFunction example_engine fresh_world ''multiply'' multiply_text)
       \<lparr>host := [''multiply''], current_exception := JS_Error InternalError ''stod''\<rparr>) \<and>
   callFunction example_engine
     (registerFunction example_engine fresh_world ''multiply'' multiply_text)
     ''multiply'' [''five'', ''ten''] =
   Inr (Inl (JSException ''InternalError: stod''),
     (registerFunction example_engine fresh_world ''multiply'' multiply_text)
       \<lparr>host := [''multiply'']\<rparr>)"
proof -
  let ?w = "registerFunction example_engine fresh_world ''multiply'' multiply_text"
  note at_script = host_fault_becomes_script_exception [where E = example_engine and ctx = ?w
      and n = "''multiply''" and x = "''multiply''" and l = 0 and f = multiply_text
      and argv = "[JS_String ''five'', JS_String ''ten'']" and args = "[''five'', ''ten'']"
      and ?ctx1.0 = ?w and what = "''stod''" and h = "[''multiply'']"]
  note at_host = host_fault_becomes_script_exception [where E = example_engine
      and ctx = fresh_world and name = "''multiply''" and f = multiply_text
      and sargs = "[''five'', ''ten'']" and args = "[''five'', ''ten'']"
      and ?ctx1.0 = ?w and what = "''stod''" and h = "[''multiply'']"]
  have g: "globals ?w ''multiply'' = Some (JS_CFunctionObj Wrapper_registerFunction ''multiply'' 0)"
    by (simp add: registerFunction_fields example_names)
  have o: "context_opaque ?w = Some (FunctionString multiply_text)"
    by (simp add: registerFunction_fields)
  have c1: "convert_arguments example_engine ?w [JS_String ''five'', JS_String ''ten''] [] =
      ([''five'', ''ten''], ?w)"
    by (simp add: example_engine_def example_ToCString_def c_str_def)
  have c2: "convert_arguments example_engine ?w
      (map (\<lambda>arg. JS_String (c_str arg)) [''five'', ''ten'']) [] = ([''five'', ''ten''], ?w)"
    by (simp add: example_engine_def example_ToCString_def c_str_def)
  have f1: "multiply_text [''five'', ''ten''] (host ?w) = (Inl (Std_exception ''stod''), [''multiply''])"
    by (simp add: multiply_text_def registerFunction_fields fresh_world_def)
  have 1: "script_call example_engine ?w ''multiply'' [JS_String ''five'', JS_String ''ten''] =
      Inr (JS_EXCEPTION,
        ?w\<lparr>host := [''multiply''], current_exception := JS_Error InternalError ''stod''\<rparr>)"
    using at_script g o c1 f1 by blast
  have "callFunction example_engine ?w ''multiply'' [''five'', ''ten''] =
        Inr (Inl (JSException
               (case fst (JS_ToCString example_engine
                            (?w\<lparr>host := [''multiply''], current_exception := JS_UNINITIALIZED\<rparr>)
                            (JS_Error InternalError ''stod'')) of
                  Some s \<Rightarrow> s | None \<Rightarrow> ''Unknown error'')),
             snd (JS_ToCString example_engine
                    (?w\<lparr>host := [''multiply''], current_exception := JS_UNINITIALIZED\<rparr>)
                    (JS_Error InternalError ''stod'')))"
    using at_host c2 f1 by blast
  then have 2: "callFunction example_engine ?w ''multiply'' [''five'', ''ten''] =
      Inr (Inl (JSException ''InternalError: stod''), ?w\<lparr>host := [''multiply'']\<rparr>)"
    by (simp add: example_engine_def example_ToCString_def registerFunction_def
        interpreter_defs fresh_world_def)
  show ?thesis
    using 1 2 by simp
qed

text \<open>
  C3 as the spec states it fails for a closure that throws a value of another type:
  \<open>throwInt\<close>, whose body is \<^verbatim>\<open>throw 42;\<close>, is not caught by
  \<^verbatim>\<open>catch (const std::exception&)\<close>, and its exception leaves the trampoline into the
  interpreter that called it.
\<close>

theorem uncaught_throw_counterexample:
  "script_call example_engine
     (registerFunction example_engine fresh_world ''throwInt'' throwInt) ''throwInt'' [] =
   Inl (Foreign_Exception Other_exception)"
  by (simp add: registerFunction_def registerFunction_wrapper_def throwInt_def
      interpreter_defs example_defs)

text \<open>
  C4 says that after \<open>registerSimpleFunction\<close> a script call to the name runs the
  closure and returns its result. \<open>registerSimpleFunction\<close> allocates its
  \<open>FuncWrapper\<close> and never stores it, while its trampoline looks for it behind the
  opaque pointer. On a fresh context the pointer is null: the call returns
  \<open>JS_EXCEPTION\<close> with nothing pending and the state unchanged, and the log is still
  empty, so \<open>getVersion\<close> did not run. After a \<open>registerFunction\<close>, as in
  \<^verbatim>\<open>cppFunctionsInJS\<close>, the pointer holds an object of another type and the call is
  undefined.
\<close>

theorem registerSimpleFunction_closure_not_called:
  "script_call example_engine
     (registerSimpleFunction example_engine fresh_world ''getVersion'' getVersion)
     ''getVersion'' [] =
   Inr (JS_EXCEPTION, registerSimpleFunction example_engine fresh_world ''getVersion'' getVersion) \<and>
   host (registerSimpleFunction example_engine fresh_world ''getVersion'' getVersion) = [] \<and>
   current_exception (registerSimpleFunction example_engine fresh_world ''getVersion'' getVersion) =
     JS_UNINITIALIZED \<and>
   script_call example_engine
     (registerFunction example_engine
        (registerSimpleFunction example_engine fresh_world ''getVersion'' getVersion)
        ''fetchData'' fetchData)
     ''getVersion'' [] = Inl Type_Confusion"
  by (simp add: registerSimpleFunction_def registerFunction_def
      registerSimpleFunction_wrapper_def interpreter_defs example_defs)

text \<open>
  For every interpreter and state, what a script call to a name registered by
  \<open>registerSimpleFunction\<close> does is the same whatever closure was registered.
\<close>

lemma registerSimpleFunction_closure_unused:
  "script_call E (registerSimpleFunction E ctx name g) (c_str name) argv =
   script_call E (registerSimpleFunction E ctx name g') (c_str name) argv"
  by (simp add: script_call_registerSimpleFunction)
     (simp add: registerSimpleFunction_def)




text \<open>
  C9. For every name, a second \<open>registerFunction\<close> under the name leaves the context
  exactly as if the first had never been made: the binding is replaced. A registration
  binds the name to one native function object and changes no other global. A script
  call to the name after the two registrations runs the closure registered last, on
  the converted arguments, and returns its result or its fault.
\<close>

theorem last_registration_wins:
  "registerFunction E (registerFunction E ctx name f) name g = registerFunction E ctx name g \<and>
   globals (registerFunction E ctx name g) (c_str name) =
     Some (JS_CFunctionObj Wrapper_registerFunction (c_str name) 0) \<and>
   (\<forall>n. n \<noteq> c_str name \<longrightarrow> globals (registerFunction E ctx name g) n = globals ctx n) \<and>
   (\<forall>args ctx1.
      convert_arguments E (registerFunction E ctx name g) argv [] = (args, ctx1) \<longrightarrow>
      script_call E (registerFunction E (registerFunction E ctx name f) name g) (c_str name) argv =
        (case g args (host ctx1) of
           (Inr result, h) \<Rightarrow> Inr (JS_String (c_str result), ctx1\<lparr>host := h\<rparr>)
         | (Inl (Std_exception what), h) \<Rightarrow>
             Inr (JS_EXCEPTION,
               ctx1\<lparr>host := h, current_exception := JS_Error InternalError what\<rparr>)
         | (Inl Other_exception, h) \<Rightarrow> Inl (Foreign_Exception Other_exception)))"
  using script_call_registerFunction [of E ctx name g argv]
  by (simp add: registerFunction_twice registerFunction_fields)

text \<open>
  On the example interpreter: \<open>fetchData\<close> registered first with the closure of
  \<open>logMessage\<close>, then with its own; the call runs the second, and an unrelated name
  stays unbound.
\<close>

theorem last_registration_wins_witness:
  "script_call example_engine
     (registerFunction example_engine
        (registerFunction example_engine fresh_world ''fetchData'' logMessage)
        ''fetchData'' fetchData)
     ''fetchData'' [JS_String ''url''] =
   Inr (JS_String ''fetched'',
     (registerFunction example_engine fresh_world ''fetchData'' fetchData)
       \<lparr>host := [''fetchData'', ''url'']\<rparr>) \<and>
   globals (registerFunction example_engine fresh_world ''fetchData'' fetchData) ''other'' = None"
proof -
  let ?w = "registerFunction example_engine fresh_world ''fetchData'' fetchData"
  let ?w2 = "registerFunction example_engine
        (registerFunction example_engine fresh_world ''fetchData'' logMessage)
        ''fetchData'' fetchData"
  note wins = last_registration_wins [of example_engine fresh_world "''fetchData''" logMessage
        fetchData "[JS_String ''url'']"]
  have conv: "convert_arguments example_engine ?w [JS_String ''url''] [] = ([''url''], ?w)"
    by (simp add: example_engine_def example_ToCString_def c_str_def)
  have ne: "''other'' \<noteq> c_str ''fetchData''"
    by (simp add: c_str_def)
  have "script_call example_engine ?w2 (c_str ''fetchData'') [JS_String ''url''] =
      (case fetchData [''url''] (host ?w) of
         (Inr result, h) \<Rightarrow> Inr (JS_String (c_str result), ?w\<lparr>host := h\<rparr>)
       | (Inl (Std_exception what), h) \<Rightarrow>
           Inr (JS_EXCEPTION, ?w\<lparr>host := h, current_exception := JS_Error InternalError what\<rparr>)
       | (Inl Other_exception, h) \<Rightarrow> Inl (Foreign_Exception Other_exception))"
    using wins conv by blast
  then have call: "script_call example_engine ?w2 ''fetchData'' [JS_String ''url''] =
      Inr (JS_String ''fetched'', ?w\<lparr>host := [''fetchData'', ''url'']\<rparr>)"
    by (simp add: example_names fetchData_def registerFunction_fields fresh_world_def c_str_def)
  have "globals ?w ''other'' = globals fresh_world ''other''"
    using wins ne by blast
  then have other: "globals ?w ''other'' = None"
    by (simp add: fresh_world_def)
  show ?thesis
    using call other by simp
qed



end
